theory Spec2Isabelle
  imports Complex_Main
begin

section \<open>The host application as the add-on sees it\<close>

text \<open>
  The module \<^verbatim>\<open>blender_importASE/__init__.py\<close> is integration code: everything it
  does is a call into the host (the class registry, the File > Import menu, the add-on
  preferences), into the interpreter (\<^verbatim>\<open>import\<close>, \<^verbatim>\<open>sys.path\<close>, \<^verbatim>\<open>print\<close>) or into a
  subprocess. The host is therefore an explicit state, every call of the source is a
  function on that state, and every call is written to a trace in program order, so that
  "once", "at most once" and "before" are statements about the trace.
\<close>

datatype exn =
    ImportError
  | CalledProcessError int
  | RuntimeError
  | ValueError
  | KeyError
  | TypeError
  | OSError

text \<open>The two classes of the module; the registry also holds classes of other add-ons.\<close>

datatype cls = ASEAddonPreferences | ImportASEMolecule | Other_class string

text \<open>Draw callbacks of a menu: the module's one, and those of other add-ons.\<close>

datatype draw_fn = menu_func_import | Other_draw string

text \<open>
  What running the installer command does: it exits with a return code, or it cannot be
  started at all (\<^verbatim>\<open>subprocess.check_call\<close> then raises \<^verbatim>\<open>OSError\<close>).
\<close>

datatype proc_result = Exit int | Cannot_execute

datatype event =
    Register_class cls
  | Unregister_class cls
  | Menu_append draw_fn
  | Menu_remove draw_fn
  | Import_ase
  | Spawn "string list"
  | Path_append string
  | Invalidate_caches
  | Print string

text \<open>The instance of \<^verbatim>\<open>ASEAddonPreferences\<close> (line 176: one boolean, default False).\<close>

record prefs =
  install_failed :: bool

text \<open>
  \<^item> \<open>classes\<close>: the host's class registry (\<^verbatim>\<open>bpy.utils.register_class\<close>);
  \<^item> \<open>file_import_menu\<close>: the draw callbacks of \<^verbatim>\<open>bpy.types.TOPBAR_MT_file_import\<close>;
  \<^item> \<open>addon_prefs\<close>: \<^verbatim>\<open>bpy.context.preferences.addons[__name__].preferences\<close>, \<open>None\<close>
    when the host has no entry for this module (the lookup raises \<^verbatim>\<open>KeyError\<close>);
  \<^item> \<open>sys_path\<close>: \<^verbatim>\<open>sys.path\<close>;
  \<^item> \<open>trace\<close>: the calls made so far, oldest first;
  \<^item> the environment the module reads: whether \<^verbatim>\<open>import ase\<close> succeeds now
    (\<open>ase_importable\<close>) and after a successful installer run (\<open>ase_after_install\<close>),
    \<^verbatim>\<open>sys.executable\<close>, \<^verbatim>\<open>bpy.utils.script_path_user()\<close> (a path or \<^verbatim>\<open>None\<close>) and what
    the installer process does (\<open>installer\<close>).
\<close>

record host =
  classes :: "cls set"
  file_import_menu :: "draw_fn list"
  addon_prefs :: "prefs option"
  sys_path :: "string list"
  trace :: "event list"
  ase_importable :: bool
  ase_after_install :: bool
  executable :: string
  script_path_user :: "string option"
  installer :: proc_result

text \<open>A call returns normally with a value or raises; the host state is kept either way.\<close>

type_synonym 'a outcome = "(exn + 'a) \<times> host"

definition emit :: "event \<Rightarrow> host \<Rightarrow> host" where
  "emit ev h = h\<lparr>trace := trace h @ [ev]\<rparr>"

definition print :: "string \<Rightarrow> host \<Rightarrow> host" where
  "print s h = emit (Print s) h"

text \<open>
  \<^verbatim>\<open>bpy.utils.register_class\<close> raises \<^verbatim>\<open>ValueError\<close> for a class that is registered
  already; \<^verbatim>\<open>bpy.utils.unregister_class\<close> raises \<^verbatim>\<open>RuntimeError\<close> for a class that is not
  registered (the handler at lines 226-227 names this case).
\<close>

definition register_class :: "cls \<Rightarrow> host \<Rightarrow> unit outcome" where
  "register_class c h =
     (let h1 = emit (Register_class c) h
      in if c \<in> classes h then (Inl ValueError, h1)
         else (Inr (), h1\<lparr>classes := insert c (classes h1)\<rparr>))"

definition unregister_class :: "cls \<Rightarrow> host \<Rightarrow> unit outcome" where
  "unregister_class c h =
     (let h1 = emit (Unregister_class c) h
      in if c \<in> classes h then (Inr (), h1\<lparr>classes := classes h1 - {c}\<rparr>)
         else (Inl RuntimeError, h1))"

text \<open>
  \<^verbatim>\<open>Menu.append\<close> adds the callback at the end; \<^verbatim>\<open>Menu.remove\<close> removes its first
  occurrence and does nothing when it is absent.
\<close>

definition menu_append :: "draw_fn \<Rightarrow> host \<Rightarrow> host" where
  "menu_append f h = (emit (Menu_append f) h)\<lparr>file_import_menu := file_import_menu h @ [f]\<rparr>"

definition menu_remove :: "draw_fn \<Rightarrow> host \<Rightarrow> host" where
  "menu_remove f h = (emit (Menu_remove f) h)\<lparr>file_import_menu := remove1 f (file_import_menu h)\<rparr>"

text \<open>\<^verbatim>\<open>import ase\<close>: raises \<^verbatim>\<open>ImportError\<close> when the package cannot be imported.\<close>

definition import_ase :: "host \<Rightarrow> unit outcome" where
  "import_ase h =
     (if ase_importable h then Inr () else Inl ImportError, emit Import_ase h)"

text \<open>
  \<^verbatim>\<open>subprocess.check_call(argv)\<close>: one blocking run of the command. Exit code 0 returns,
  any other exit code raises \<^verbatim>\<open>CalledProcessError\<close>, a command that cannot be started
  raises \<^verbatim>\<open>OSError\<close>. After a successful run the package is importable or not as the
  environment says.
\<close>

definition check_call :: "string list \<Rightarrow> host \<Rightarrow> unit outcome" where
  "check_call argv h =
     (let h1 = emit (Spawn argv) h
      in case installer h of
           Cannot_execute \<Rightarrow> (Inl OSError, h1)
         | Exit rc \<Rightarrow>
             if rc = 0 then (Inr (), h1\<lparr>ase_importable := ase_after_install h1\<rparr>)
             else (Inl (CalledProcessError rc), h1))"

definition path_append :: "string \<Rightarrow> host \<Rightarrow> host" where
  "path_append p h = (emit (Path_append p) h)\<lparr>sys_path := sys_path h @ [p]\<rparr>"

definition invalidate_caches :: "host \<Rightarrow> host" where
  "invalidate_caches h = emit Invalidate_caches h"

text \<open>
  \<^verbatim>\<open>os.path.join\<close> of two components (the POSIX one): an absolute second component
  replaces the first; otherwise the two are joined by one separator, which is not added
  after an empty first component or one that ends in a separator.
\<close>

definition join :: "string \<Rightarrow> string \<Rightarrow> string" where
  "join a b =
     (if b \<noteq> [] \<and> hd b = CHR ''/'' then b
      else if a = [] \<or> last a = CHR ''/'' then a @ b
      else a @ ''/'' @ b)"

section \<open>The dependency check\<close>

text \<open>
  Lines 193-200, the body of the inner \<^verbatim>\<open>try\<close>. \<^verbatim>\<open>os.path.join\<close> raises
  \<^verbatim>\<open>TypeError\<close> when \<^verbatim>\<open>script_path_user()\<close> is \<^verbatim>\<open>None\<close>.
\<close>

definition install_ase :: "host \<Rightarrow> unit outcome" where
  "install_ase h =
     (let python_path = executable h
      in case script_path_user h of
           None \<Rightarrow> (Inl TypeError, h)
         | Some script_path \<Rightarrow>
             (let install_path = join script_path ''modules''
              in case check_call [python_path, ''-m'', ''pip'', ''install'', ''--target'',
                                  install_path, ''ase''] h of
                   (Inl e, h1) \<Rightarrow> (Inl e, h1)
                 | (Inr _, h1) \<Rightarrow>
                     (let h2 = (if install_path \<notin> set (sys_path h1)
                                then path_append install_path h1 else h1);
                          h3 = invalidate_caches h2
                      in import_ase h3)))"

text \<open>Lines 186-208. The two handlers of the inner \<^verbatim>\<open>try\<close> are tried in source order.\<close>

definition check_dependency :: "host \<Rightarrow> bool outcome" where
  "check_dependency h =
     (case import_ase h of
        (Inr _, h1) \<Rightarrow> (Inr True, h1)
      | (Inl e, h1) \<Rightarrow>
          if e \<noteq> ImportError then (Inl e, h1)
          else
            (let h2 = print ''ASE not present in Blender python. Attempting install. This could take a moment...'' h1
             in case install_ase h2 of
                  (Inl e', h3) \<Rightarrow>
                    (case e' of
                       CalledProcessError rc \<Rightarrow>
                         (Inr False, print ''Failed to install ASE. Please check your internet connection and try again or install manually'' h3)
                     | ImportError \<Rightarrow>
                         (Inr False, print ''ASE not found after installation, check your blender installation'' h3)
                     | _ \<Rightarrow> (Inl e', h3))
                | (Inr _, h3) \<Rightarrow> (Inr True, print ''Installed ASE'' h3)))"

section \<open>Registration\<close>

text \<open>
  Lines 213-221. The write to \<^verbatim>\<open>prefs.install_failed\<close> needs the host's entry for this
  module; without one the lookup at line 220 raises \<^verbatim>\<open>KeyError\<close>.
\<close>

definition register :: "host \<Rightarrow> unit outcome" where
  "register h =
     (case register_class ASEAddonPreferences h of
        (Inl e, h1) \<Rightarrow> (Inl e, h1)
      | (Inr _, h1) \<Rightarrow>
          (case check_dependency h1 of
             (Inl e, h2) \<Rightarrow> (Inl e, h2)
           | (Inr dependency, h2) \<Rightarrow>
               if dependency then
                 (case register_class ImportASEMolecule h2 of
                    (Inl e, h3) \<Rightarrow> (Inl e, h3)
                  | (Inr _, h3) \<Rightarrow> (Inr (), menu_append menu_func_import h3))
               else
                 (case addon_prefs h2 of
                    None \<Rightarrow> (Inl KeyError, h2)
                  | Some p \<Rightarrow> (Inr (), h2\<lparr>addon_prefs := Some (p\<lparr>install_failed := True\<rparr>)\<rparr>))))"

text \<open>
  Lines 223-229. Only the first \<^verbatim>\<open>unregister_class\<close> is inside a \<^verbatim>\<open>try\<close>; its handler
  takes \<^verbatim>\<open>RuntimeError\<close> and nothing else.
\<close>

definition unregister :: "host \<Rightarrow> unit outcome" where
  "unregister h =
     (case (case unregister_class ImportASEMolecule h of
              (Inl e, h1) \<Rightarrow>
                if e = RuntimeError
                then (Inr (), print ''ImportASEMolecule was not registered, skipping.'' h1)
                else (Inl e, h1)
            | (Inr u, h1) \<Rightarrow> (Inr u, h1)) of
        (Inl e, h1) \<Rightarrow> (Inl e, h1)
      | (Inr _, h1) \<Rightarrow>
          unregister_class ASEAddonPreferences (menu_remove menu_func_import h1))"

section \<open>The preferences panel\<close>

text \<open>Lines 178-183: \<^verbatim>\<open>draw\<close> puts one label on the panel's layout.\<close>

record label =
  label_text :: string
  label_icon :: string

definition ASEAddonPreferences_draw :: "prefs \<Rightarrow> label list" where
  "ASEAddonPreferences_draw self =
     (if install_failed self
      then [\<lparr>label_text = ''ASE installation failed. Please check your internet connection.'',
             label_icon = ''ERROR''\<rparr>]
      else [\<lparr>label_text = ''ASE installation successful.'', label_icon = ''CHECKMARK''\<rparr>])"

section \<open>The import operator\<close>

datatype representation = Balls'n'Sticks | Licorice | VDW | bonds_fromnodes | nodes

text \<open>One entry of the host's file list (\<^verbatim>\<open>OperatorFileListElement\<close>).\<close>

record file_elem =
  name :: string

text \<open>
  The properties of \<^verbatim>\<open>ImportASEMolecule\<close> (lines 35-129). The two float properties are
  only handed on, never computed with.
\<close>

record operator =
  scale :: real
  resolution :: int
  colorbonds :: bool
  fix_bonds :: bool
  color :: real
  unit_cell :: bool
  representation :: representation
  read_density :: bool
  zero_cell :: bool
  animate :: bool
  imageslice :: int
  overwrite :: bool
  outline :: bool
  add_supercell :: bool
  files :: "file_elem list"
  directory :: string

datatype pyval =
    Py_str string
  | Py_float real
  | Py_int int
  | Py_bool bool
  | Py_enum representation

text \<open>A call: its positional arguments, and its keyword arguments in source order.\<close>

record call =
  args :: "pyval list"
  kwargs :: "(string \<times> pyval) list"

text \<open>Lines 152 and 157-166: the call made for one entry of \<^verbatim>\<open>self.files\<close>.\<close>

definition import_call :: "operator \<Rightarrow> file_elem \<Rightarrow> call" where
  "import_call self file =
     (let filepath = join (directory self) (name file)
      in \<lparr>args = [Py_str filepath, Py_str (name file)],
          kwargs =
            [(''resolution'', Py_int (resolution self)),
             (''color'', Py_float (color self)),
             (''colorbonds'', Py_bool (colorbonds self)),
             (''fix_bonds'', Py_bool (fix_bonds self)),
             (''scale'', Py_float (scale self)),
             (''unit_cell'', Py_bool (unit_cell self)),
             (''representation'', Py_enum (representation self)),
             (''read_density'', Py_bool (read_density self)),
             (''shift_cell'', Py_bool (zero_cell self)),
             (''imageslice'', Py_int (imageslice self)),
             (''animate'', Py_bool (animate self)),
             (''outline'', Py_bool (outline self)),
             (''overwrite'', Py_bool (overwrite self)),
             (''add_supercell'', Py_bool (add_supercell self))]\<rparr>)"

text \<open>
  Line 156, \<^verbatim>\<open>from .ui import import_ase_molecule\<close>. The module \<^verbatim>\<open>ui\<close> is not among the
  files of this module, so the outcome of the statement is the parameter \<open>ui\<close>: the
  exception the import raises, or the function it binds. The function takes the call and
  the scene \<open>w\<close> and gives the scene back, with the exception it raised if it raised one.

  Lines 151-166, the loop. Each turn runs the import statement, then makes the call. An
  exception of either ends the loop; when the import raises, no call has been made. The
  list \<open>made\<close> keeps the calls made so far.
\<close>

fun execute_loop ::
  "'e + (call \<Rightarrow> 'w \<Rightarrow> 'e option \<times> 'w) \<Rightarrow> operator \<Rightarrow> file_elem list \<Rightarrow> call list \<Rightarrow> 'w
     \<Rightarrow> 'e option \<times> call list \<times> 'w" where
  "execute_loop ui self [] made w = (None, made, w)"
| "execute_loop ui self (file # rest) made w =
     (case ui of
        Inl e \<Rightarrow> (Some e, made, w)
      | Inr import_ase_molecule \<Rightarrow>
          (let c = import_call self file
           in case import_ase_molecule c w of
                (Some e, w') \<Rightarrow> (Some e, made @ [c], w')
              | (None, w') \<Rightarrow> execute_loop ui self rest (made @ [c]) w'))"

text \<open>
  Lines 149-167: the value returned (or the exception raised), the calls made, and the
  scene afterwards.
\<close>

definition execute ::
  "'e + (call \<Rightarrow> 'w \<Rightarrow> 'e option \<times> 'w) \<Rightarrow> operator \<Rightarrow> 'w
     \<Rightarrow> ('e + string set) \<times> call list \<times> 'w" where
  "execute ui self w =
     (case execute_loop ui self (files self) [] w of
        (Some e, made, w') \<Rightarrow> (Inl e, made, w')
      | (None, made, w') \<Rightarrow> (Inr {''FINISHED''}, made, w'))"

definition invoked :: "('e + string set) \<times> call list \<times> 'w \<Rightarrow> call list" where
  "invoked r = fst (snd r)"

text \<open>
  What the external function is handed. \<open>recorded d\<close> behaves as the external function
  \<open>d\<close> and writes down every call it receives, with all its arguments, in a list that it
  keeps beside the scene; \<open>received\<close> reads that list after a run.
\<close>

definition recorded ::
  "(call \<Rightarrow> 'w \<Rightarrow> 'e option \<times> 'w) \<Rightarrow> call \<Rightarrow> call list \<times> 'w \<Rightarrow> 'e option \<times> call list \<times> 'w" where
  "recorded d c s = (case d c (snd s) of (r, w') \<Rightarrow> (r, fst s @ [c], w'))"

definition received :: "('e + string set) \<times> call list \<times> call list \<times> 'w \<Rightarrow> call list" where
  "received r = fst (snd (snd r))"

text \<open>
  "The downstream calls return": the calls \<open>cs\<close>, made one after the other by the external
  function \<open>d\<close>, each in the scene that the one before has left, all return.
\<close>

fun calls_return :: "(call \<Rightarrow> 'w \<Rightarrow> 'e option \<times> 'w) \<Rightarrow> call list \<Rightarrow> 'w \<Rightarrow> bool" where
  "calls_return d [] w = True"
| "calls_return d (c # cs) w =
     (case d c w of (None, w') \<Rightarrow> calls_return d cs w' | (Some e, w') \<Rightarrow> False)"

section \<open>Observations and example states\<close>

text \<open>The calls made between two states of the host: what was added to the trace.\<close>

definition new_events :: "host \<Rightarrow> host \<Rightarrow> event list" where
  "new_events h h' = drop (length (trace h)) (trace h')"

fun is_spawn :: "event \<Rightarrow> bool" where
  "is_spawn (Spawn argv) = True"
| "is_spawn _ = False"

text \<open>
  A host at start-up, before the add-on is loaded: the package is missing, the installer
  exits with code 1 (no network), and would not deliver the package even if it ran
  through. The examples below vary the environment fields.
\<close>

definition example_host :: host where
  "example_host =
     \<lparr>classes = {Other_class ''VIEW3D_PT_tools''},
      file_import_menu = [Other_draw ''menu_func_import_obj''],
      addon_prefs = Some \<lparr>install_failed = False\<rparr>,
      sys_path = [''/usr/lib/python3.11''],
      trace = [],
      ase_importable = False,
      ase_after_install = False,
      executable = ''/usr/bin/python3.11'',
      script_path_user = Some ''/home/user/scripts'',
      installer = Exit 1\<rparr>"

text \<open>The operator with the defaults of its properties and two files selected.\<close>

definition example_operator :: operator where
  "example_operator =
     \<lparr>scale = 0.5, resolution = 16, colorbonds = False, fix_bonds = True, color = 0.6,
      unit_cell = False, representation = nodes, read_density = True, zero_cell = False,
      animate = True, imageslice = 1, overwrite = True, outline = True,
      add_supercell = True,
      files = [\<lparr>name = ''h2o.xyz''\<rparr>, \<lparr>name = ''co2.cube''\<rparr>],
      directory = ''/data/mol''\<rparr>"

text \<open>
  External import functions for the examples; the scene is the number of calls received.
  The first always returns, the second raises on every call, the third returns on its
  first call and raises from the second on.
\<close>

definition counting_import :: "call \<Rightarrow> nat \<Rightarrow> exn option \<times> nat" where
  "counting_import c n = (None, Suc n)"

definition failing_import :: "call \<Rightarrow> nat \<Rightarrow> exn option \<times> nat" where
  "failing_import c n = (Some ValueError, Suc n)"

definition failing_second_import :: "call \<Rightarrow> nat \<Rightarrow> exn option \<times> nat" where
  "failing_second_import c n = (if n = 0 then None else Some ValueError, Suc n)"

section \<open>Facts about the host operations\<close>

lemmas host_ops = emit_def print_def register_class_def unregister_class_def menu_append_def
  menu_remove_def import_ase_def check_call_def path_append_def invalidate_caches_def

text \<open>The result of the check is decided by the environment alone.\<close>

lemma check_dependency_result:
  "fst (check_dependency h) =
     (if ase_importable h then Inr True
      else case script_path_user h of
             None \<Rightarrow> Inl TypeError
           | Some sp \<Rightarrow>
               (case installer h of
                  Cannot_execute \<Rightarrow> Inl OSError
                | Exit rc \<Rightarrow> Inr (rc = 0 \<and> ase_after_install h)))"
  by (simp add: check_dependency_def install_ase_def host_ops Let_def
        split: option.split proc_result.split)

lemma check_dependency_False:
  assumes "fst (check_dependency h) = Inr False"
  obtains sp rc where "\<not> ase_importable h" "script_path_user h = Some sp"
    "installer h = Exit rc" "rc \<noteq> 0 \<or> \<not> ase_after_install h"
  using assms unfolding check_dependency_result
  by (auto split: if_splits option.splits proc_result.splits)

lemma check_dependency_True:
  assumes "fst (check_dependency h) = Inr True"
  obtains (present) "ase_importable h"
  | (installed) sp where "\<not> ase_importable h" "script_path_user h = Some sp"
      "installer h = Exit 0" "ase_after_install h"
  using assms unfolding check_dependency_result
  by (auto split: if_splits option.splits proc_result.splits)

text \<open>The outcome of the check in each environment, in closed form.\<close>

lemma check_dependency_present:
  assumes "ase_importable h"
  shows "check_dependency h = (Inr True, emit Import_ase h)"
  using assms by (simp add: check_dependency_def import_ase_def)

lemma check_dependency_no_script_path:
  assumes "\<not> ase_importable h" and "script_path_user h = None"
  shows "check_dependency h =
    (Inl TypeError,
     print ''ASE not present in Blender python. Attempting install. This could take a moment...''
       (emit Import_ase h))"
  using assms by (simp add: check_dependency_def install_ase_def import_ase_def emit_def print_def)

lemma check_dependency_cannot_execute:
  assumes "\<not> ase_importable h" and "script_path_user h = Some sp"
    and "installer h = Cannot_execute"
  shows "check_dependency h =
    (Inl OSError,
     emit (Spawn [executable h, ''-m'', ''pip'', ''install'', ''--target'',
                  join sp ''modules'', ''ase''])
       (print ''ASE not present in Blender python. Attempting install. This could take a moment...''
          (emit Import_ase h)))"
  using assms
  by (simp add: check_dependency_def install_ase_def import_ase_def check_call_def emit_def
        print_def Let_def)

lemma check_dependency_exit_nonzero:
  assumes "\<not> ase_importable h" and "script_path_user h = Some sp"
    and "installer h = Exit rc" and "rc \<noteq> 0"
  shows "check_dependency h =
    (Inr False,
     print ''Failed to install ASE. Please check your internet connection and try again or install manually''
       (emit (Spawn [executable h, ''-m'', ''pip'', ''install'', ''--target'',
                     join sp ''modules'', ''ase''])
          (print ''ASE not present in Blender python. Attempting install. This could take a moment...''
             (emit Import_ase h))))"
  using assms
  by (simp add: check_dependency_def install_ase_def import_ase_def check_call_def emit_def
        print_def Let_def)

lemma check_dependency_exit_zero:
  assumes "\<not> ase_importable h" and "script_path_user h = Some sp"
    and "installer h = Exit 0"
  shows "check_dependency h =
    (Inr (ase_after_install h),
     print (if ase_after_install h then ''Installed ASE''
            else ''ASE not found after installation, check your blender installation'')
       (emit Import_ase
          (invalidate_caches
             ((if join sp ''modules'' \<in> set (sys_path h) then (\<lambda>x. x)
               else path_append (join sp ''modules''))
                ((emit (Spawn [executable h, ''-m'', ''pip'', ''install'', ''--target'',
                               join sp ''modules'', ''ase''])
                    (print ''ASE not present in Blender python. Attempting install. This could take a moment...''
                       (emit Import_ase h)))
                 \<lparr>ase_importable := ase_after_install h\<rparr>)))))"
  using assms
  by (simp add: check_dependency_def install_ase_def import_ase_def check_call_def emit_def
        print_def path_append_def invalidate_caches_def Let_def)

text \<open>What the check leaves alone, and how its trace starts.\<close>

lemma check_dependency_cases:
  obtains (present) "ase_importable h"
  | (no_script_path) "\<not> ase_importable h" "script_path_user h = None"
  | (cannot_execute) sp where "\<not> ase_importable h" "script_path_user h = Some sp"
      "installer h = Cannot_execute"
  | (exit_nonzero) sp rc where "\<not> ase_importable h" "script_path_user h = Some sp"
      "installer h = Exit rc" "rc \<noteq> 0"
  | (exit_zero) sp where "\<not> ase_importable h" "script_path_user h = Some sp"
      "installer h = Exit 0"
proof (cases "ase_importable h")
  case True
  then show ?thesis by (rule present)
next
  case absent: False
  show ?thesis
  proof (cases "script_path_user h")
    case None
    with absent show ?thesis by (rule no_script_path)
  next
    case (Some sp)
    show ?thesis
    proof (cases "installer h")
      case Cannot_execute
      with absent Some show ?thesis by (rule cannot_execute)
    next
      case (Exit rc)
      with absent Some show ?thesis
        by (cases "rc = 0") (auto intro: exit_nonzero exit_zero)
    qed
  qed
qed

lemmas check_dependency_closed = check_dependency_present check_dependency_no_script_path
  check_dependency_cannot_execute check_dependency_exit_nonzero check_dependency_exit_zero

lemma check_dependency_frame:
  "classes (snd (check_dependency h)) = classes h"
  "file_import_menu (snd (check_dependency h)) = file_import_menu h"
  "addon_prefs (snd (check_dependency h)) = addon_prefs h"
  by (cases h rule: check_dependency_cases;
      simp add: check_dependency_closed emit_def print_def path_append_def invalidate_caches_def)+

lemma check_dependency_trace:
  "\<exists>rest. trace (snd (check_dependency h)) = trace h @ Import_ase # rest"
  by (cases h rule: check_dependency_cases;
      simp add: check_dependency_closed emit_def print_def path_append_def invalidate_caches_def)

text \<open>The first step of register: registering the preferences class.\<close>

lemma register_already_registered:
  assumes "ASEAddonPreferences \<in> classes h"
  shows "register h = (Inl ValueError, emit (Register_class ASEAddonPreferences) h)"
  using assms by (simp add: register_def register_class_def Let_def)

lemma register_class_fresh:
  assumes "c \<notin> classes h"
  shows "register_class c h = (Inr (), (emit (Register_class c) h)\<lparr>classes := insert c (classes h)\<rparr>)"
  using assms by (simp add: register_class_def emit_def Let_def)

text \<open>The check that register makes sees the environment of the start state.\<close>

lemma check_dependency_after_register_class:
  "fst (check_dependency ((emit ev h)\<lparr>classes := cs\<rparr>)) = fst (check_dependency h)"
  by (simp add: check_dependency_result emit_def split: option.split proc_result.split)

text \<open>With the check failing, register ends in the branch of lines 220-221.\<close>

lemma register_failed:
  assumes "fst (check_dependency h) = Inr False" and "ASEAddonPreferences \<notin> classes h"
  obtains h2 where
    "register h =
       (case addon_prefs h of
          None \<Rightarrow> (Inl KeyError, h2)
        | Some p \<Rightarrow> (Inr (), h2\<lparr>addon_prefs := Some (p\<lparr>install_failed := True\<rparr>)\<rparr>))"
    "classes h2 = insert ASEAddonPreferences (classes h)"
    "file_import_menu h2 = file_import_menu h"
    "addon_prefs h2 = addon_prefs h"
    "set (new_events h h2) \<subseteq> {Register_class ASEAddonPreferences, Import_ase, Invalidate_caches}
        \<union> range Print \<union> range Spawn \<union> range Path_append"
proof -
  define h1 where "h1 = (emit (Register_class ASEAddonPreferences) h)
    \<lparr>classes := insert ASEAddonPreferences (classes h)\<rparr>"
  have step: "register_class ASEAddonPreferences h = (Inr (), h1)"
    unfolding h1_def using assms(2) by (rule register_class_fresh)
  have "fst (check_dependency h1) = Inr False"
    unfolding h1_def check_dependency_after_register_class by (rule assms(1))
  then obtain sp rc where env: "\<not> ase_importable h1" "script_path_user h1 = Some sp"
    "installer h1 = Exit rc" "rc \<noteq> 0 \<or> \<not> ase_after_install h1"
    by (rule check_dependency_False)
  define h2 where "h2 = snd (check_dependency h1)"
  have check: "check_dependency h1 = (Inr False, h2)"
  proof (cases "rc = 0")
    case True
    with env check_dependency_exit_zero [of h1 sp] show ?thesis by (simp add: h2_def)
  next
    case False
    with env check_dependency_exit_nonzero [of h1 sp rc] show ?thesis by (simp add: h2_def)
  qed
  have frame: "classes h2 = insert ASEAddonPreferences (classes h)"
    "file_import_menu h2 = file_import_menu h" "addon_prefs h2 = addon_prefs h"
    by (simp_all add: h2_def check_dependency_frame, simp_all add: h1_def emit_def)
  have events: "set (new_events h h2) \<subseteq>
      {Register_class ASEAddonPreferences, Import_ase, Invalidate_caches}
        \<union> range Print \<union> range Spawn \<union> range Path_append"
  proof (cases "rc = 0")
    case True
    with env check_dependency_exit_zero [of h1 sp] show ?thesis
      by (auto simp add: h2_def new_events_def h1_def emit_def print_def path_append_def
            invalidate_caches_def)
  next
    case False
    with env check_dependency_exit_nonzero [of h1 sp rc] show ?thesis
      by (auto simp add: h2_def new_events_def h1_def emit_def print_def)
  qed
  have "register h =
       (case addon_prefs h of
          None \<Rightarrow> (Inl KeyError, h2)
        | Some p \<Rightarrow> (Inr (), h2\<lparr>addon_prefs := Some (p\<lparr>install_failed := True\<rparr>)\<rparr>))"
    by (simp add: register_def step check frame)
  then show thesis using frame events by (rule that)
qed

text \<open>With the check succeeding, register ends in the branch of lines 217-218.\<close>

lemma register_succeeded:
  assumes "fst (check_dependency h) = Inr True" and "ASEAddonPreferences \<notin> classes h"
    and "ImportASEMolecule \<notin> classes h"
  obtains h2 where
    "register h =
       (Inr (), menu_append menu_func_import
                  ((emit (Register_class ImportASEMolecule) h2)
                     \<lparr>classes := insert ImportASEMolecule (classes h2)\<rparr>))"
    "classes h2 = insert ASEAddonPreferences (classes h)"
    "file_import_menu h2 = file_import_menu h"
    "set (new_events h h2) \<subseteq> {Register_class ASEAddonPreferences, Import_ase, Invalidate_caches}
        \<union> range Print \<union> range Spawn \<union> range Path_append"
    "length (trace h) \<le> length (trace h2)"
proof -
  define h1 where "h1 = (emit (Register_class ASEAddonPreferences) h)
    \<lparr>classes := insert ASEAddonPreferences (classes h)\<rparr>"
  have step: "register_class ASEAddonPreferences h = (Inr (), h1)"
    unfolding h1_def using assms(2) by (rule register_class_fresh)
  define h2 where "h2 = snd (check_dependency h1)"
  have "fst (check_dependency h1) = Inr True"
    unfolding h1_def check_dependency_after_register_class by (rule assms(1))
  then have check: "check_dependency h1 = (Inr True, h2)"
    by (simp add: h2_def prod_eq_iff)
  have frame: "classes h2 = insert ASEAddonPreferences (classes h)"
    "file_import_menu h2 = file_import_menu h"
    by (simp_all add: h2_def check_dependency_frame, simp_all add: h1_def emit_def)
  have events: "set (new_events h h2) \<subseteq>
      {Register_class ASEAddonPreferences, Import_ase, Invalidate_caches}
        \<union> range Print \<union> range Spawn \<union> range Path_append \<and>
      length (trace h) \<le> length (trace h2)"
    using \<open>fst (check_dependency h1) = Inr True\<close>
  proof (cases rule: check_dependency_True)
    case present
    then show ?thesis
      by (auto simp add: h2_def check_dependency_present new_events_def h1_def emit_def)
  next
    case (installed sp)
    from check_dependency_exit_zero [OF installed(1,2,3)] show ?thesis
      by (auto simp add: h2_def new_events_def h1_def emit_def print_def path_append_def
            invalidate_caches_def)
  qed
  have "ImportASEMolecule \<notin> classes h2"
    using assms(3) by (simp add: frame)
  then have "register h =
       (Inr (), menu_append menu_func_import
                  ((emit (Register_class ImportASEMolecule) h2)
                     \<lparr>classes := insert ImportASEMolecule (classes h2)\<rparr>))"
    by (simp add: register_def step check register_class_fresh)
  then show thesis using frame events by (blast intro: that)
qed

lemma count_list_absent: "x \<notin> set xs \<Longrightarrow> count_list xs x = 0"
  by (induction xs) auto

lemma count_list_present: "x \<in> set xs \<Longrightarrow> 1 \<le> count_list xs x"
  by (induction xs) auto

text \<open>The installer runs of one check, and what a failed check leaves behind.\<close>

lemma check_dependency_spawns:
  "filter is_spawn (new_events h (snd (check_dependency h))) =
     (if ase_importable h then []
      else case script_path_user h of
             None \<Rightarrow> []
           | Some sp \<Rightarrow> [Spawn [executable h, ''-m'', ''pip'', ''install'', ''--target'',
                                join sp ''modules'', ''ase'']])"
  by (cases h rule: check_dependency_cases)
     (simp_all add: check_dependency_closed new_events_def print_def emit_def path_append_def
        invalidate_caches_def)

lemma check_dependency_still_missing:
  assumes "fst (check_dependency h) = Inr False"
  shows "\<not> ase_importable (snd (check_dependency h))"
  using assms
proof (rule check_dependency_False)
  fix sp rc
  assume env: "\<not> ase_importable h" "script_path_user h = Some sp" "installer h = Exit rc"
    "rc \<noteq> 0 \<or> \<not> ase_after_install h"
  show ?thesis
  proof (cases "rc = 0")
    case True
    with env check_dependency_exit_zero [of h sp] show ?thesis
      by (simp add: print_def emit_def path_append_def invalidate_caches_def)
  next
    case False
    with env check_dependency_exit_nonzero [of h sp rc] show ?thesis
      by (simp add: print_def emit_def)
  qed
qed

lemma register_failed_operator:
  assumes "fst (check_dependency h) = Inr False"
  shows "ImportASEMolecule \<in> classes (snd (register h)) \<longleftrightarrow> ImportASEMolecule \<in> classes h"
proof (cases "ASEAddonPreferences \<in> classes h")
  case True
  then show ?thesis by (simp add: register_already_registered emit_def)
next
  case False
  with assms obtain h2 where "register h =
       (case addon_prefs h of
          None \<Rightarrow> (Inl KeyError, h2)
        | Some p \<Rightarrow> (Inr (), h2\<lparr>addon_prefs := Some (p\<lparr>install_failed := True\<rparr>)\<rparr>))"
    "classes h2 = insert ASEAddonPreferences (classes h)"
    by (rule register_failed)
  then show ?thesis by (simp split: option.split)
qed

section \<open>Facts about the loop of the operator\<close>

text \<open>The call for a file does not depend on which files are selected.\<close>

lemma import_call_files: "import_call (self\<lparr>files := fs\<rparr>) x = import_call self x"
  by (simp add: import_call_def)

text \<open>The calls made before a turn stay at the front of the list.\<close>

lemma execute_loop_made:
  "execute_loop ui self fs made w =
     (case execute_loop ui self fs [] w of (r, new, w') \<Rightarrow> (r, made @ new, w'))"
proof (induction fs arbitrary: made w)
  case Nil
  show ?case by simp
next
  case (Cons f rest)
  show ?case
  proof (cases ui)
    case (Inl e)
    then show ?thesis by simp
  next
    case (Inr d)
    obtain r w' where call: "d (import_call self f) w = (r, w')"
      by (cases "d (import_call self f) w")
    show ?thesis
    proof (cases r)
      case (Some e)
      with Inr call show ?thesis by (simp add: Let_def)
    next
      case None
      have "execute_loop ui self (f # rest) made w =
          execute_loop ui self rest (made @ [import_call self f]) w'"
        using Inr call None by (simp add: Let_def)
      also have "\<dots> = (case execute_loop ui self rest [] w' of
          (r, new, w'') \<Rightarrow> (r, (made @ [import_call self f]) @ new, w''))"
        by (rule Cons.IH)
      finally have left: "execute_loop ui self (f # rest) made w =
          (case execute_loop ui self rest [] w' of
             (r, new, w'') \<Rightarrow> (r, made @ import_call self f # new, w''))"
        by simp
      have "execute_loop ui self (f # rest) [] w =
          execute_loop ui self rest [import_call self f] w'"
        using Inr call None by (simp add: Let_def)
      also have "\<dots> = (case execute_loop ui self rest [] w' of
          (r, new, w'') \<Rightarrow> (r, [import_call self f] @ new, w''))"
        by (rule Cons.IH)
      finally have right: "execute_loop ui self (f # rest) [] w =
          (case execute_loop ui self rest [] w' of
             (r, new, w'') \<Rightarrow> (r, import_call self f # new, w''))"
        by simp
      show ?thesis unfolding left right by (simp split: prod.split)
    qed
  qed
qed

lemma execute_loop_files:
  "execute_loop ui (self\<lparr>files := x\<rparr>) fs made w = execute_loop ui self fs made w"
  by (induction fs arbitrary: made w)
     (auto simp add: import_call_files Let_def split: sum.split prod.split option.split)

text \<open>One turn of execute: no file, a failing import, a call that raises, one that returns.\<close>

lemma execute_no_file:
  assumes "files self = []"
  shows "execute ui self w = (Inr {''FINISHED''}, [], w)"
  using assms by (simp add: execute_def)


lemma execute_call_raises:
  assumes "files self = f # rest" and "d (import_call self f) w = (Some e, w')"
  shows "execute (Inr d) self w = (Inl e, [import_call self f], w')"
  using assms by (simp add: execute_def Let_def)

lemma execute_call_returns:
  assumes "files self = f # rest" and "d (import_call self f) w = (None, w')"
  shows "execute (Inr d) self w =
    (case execute (Inr d) (self\<lparr>files := rest\<rparr>) w' of
       (r, made, w'') \<Rightarrow> (r, import_call self f # made, w''))"
proof -
  have "execute_loop (Inr d) self (f # rest) [] w =
      execute_loop (Inr d) self rest [import_call self f] w'"
    using assms(2) by (simp add: Let_def)
  also have "\<dots> = (case execute_loop (Inr d) self rest [] w' of
      (r, new, w'') \<Rightarrow> (r, [import_call self f] @ new, w''))"
    by (rule execute_loop_made)
  finally have "execute_loop (Inr d) self (files self) [] w =
      (case execute_loop (Inr d) self rest [] w' of
         (r, new, w'') \<Rightarrow> (r, import_call self f # new, w''))"
    by (simp add: assms(1))
  then show ?thesis
    by (simp add: execute_def execute_loop_files split: prod.split option.split)
qed

text \<open>
  A run with the recording function is the run with the function itself, and the calls
  it has received are the calls made.
\<close>

lemma execute_loop_recorded:
  "execute_loop (Inr (recorded d)) self fs made (cs, w) =
     (case execute_loop (Inr d) self fs [] w of
        (r, new, w') \<Rightarrow> (r, made @ new, cs @ new, w'))"
proof (induction fs arbitrary: made cs w)
  case Nil
  show ?case by simp
next
  case (Cons f rest)
  obtain r w' where call: "d (import_call self f) w = (r, w')"
    by (cases "d (import_call self f) w")
  show ?case
  proof (cases r)
    case (Some e)
    with call show ?thesis by (simp add: recorded_def Let_def)
  next
    case None
    have "execute_loop (Inr (recorded d)) self (f # rest) made (cs, w) =
        execute_loop (Inr (recorded d)) self rest (made @ [import_call self f])
          (cs @ [import_call self f], w')"
      using call None by (simp add: recorded_def Let_def)
    also have "\<dots> = (case execute_loop (Inr d) self rest [] w' of
        (r, new, w'') \<Rightarrow>
          (r, (made @ [import_call self f]) @ new, (cs @ [import_call self f]) @ new, w''))"
      by (rule Cons.IH)
    finally have left: "execute_loop (Inr (recorded d)) self (f # rest) made (cs, w) =
        (case execute_loop (Inr d) self rest [] w' of
           (r, new, w'') \<Rightarrow>
             (r, made @ import_call self f # new, cs @ import_call self f # new, w''))"
      by simp
    have "execute_loop (Inr d) self (f # rest) [] w =
        execute_loop (Inr d) self rest [import_call self f] w'"
      using call None by (simp add: Let_def)
    also have "\<dots> = (case execute_loop (Inr d) self rest [] w' of
        (r, new, w'') \<Rightarrow> (r, [import_call self f] @ new, w''))"
      by (rule execute_loop_made)
    finally have right: "execute_loop (Inr d) self (f # rest) [] w =
        (case execute_loop (Inr d) self rest [] w' of
           (r, new, w'') \<Rightarrow> (r, import_call self f # new, w''))"
      by simp
    show ?thesis unfolding left right by (simp split: prod.split)
  qed
qed

lemma execute_recorded:
  "execute (Inr (recorded d)) self ([], w) =
     (case execute (Inr d) self w of (r, made, w') \<Rightarrow> (r, made, made, w'))"
  by (simp add: execute_def execute_loop_recorded split: prod.split option.split)

text \<open>The calls made are those for the first files, for all of them when none raises.\<close>

lemma execute_loop_prefix:
  "\<exists>n \<le> length fs. fst (snd (execute_loop ui self fs [] w)) = map (import_call self) (take n fs)"
proof (induction fs arbitrary: w)
  case Nil
  show ?case by simp
next
  case (Cons f rest)
  show ?case
  proof (cases ui)
    case (Inl e)
    then have "fst (snd (execute_loop ui self (f # rest) [] w)) =
        map (import_call self) (take 0 (f # rest))"
      by simp
    then show ?thesis by blast
  next
    case (Inr d)
    obtain r w' where call: "d (import_call self f) w = (r, w')"
      by (cases "d (import_call self f) w")
    show ?thesis
    proof (cases r)
      case (Some e)
      with Inr call have "fst (snd (execute_loop ui self (f # rest) [] w)) =
          map (import_call self) (take 1 (f # rest))"
        by (simp add: Let_def)
      moreover have "1 \<le> length (f # rest)" by simp
      ultimately show ?thesis by blast
    next
      case None
      from Cons.IH [of w'] obtain n where n: "n \<le> length rest"
        "fst (snd (execute_loop ui self rest [] w')) = map (import_call self) (take n rest)"
        by blast
      have "execute_loop ui self (f # rest) [] w =
          execute_loop ui self rest [import_call self f] w'"
        using Inr call None by (simp add: Let_def)
      also have "\<dots> = (case execute_loop ui self rest [] w' of
          (r, new, w'') \<Rightarrow> (r, [import_call self f] @ new, w''))"
        by (rule execute_loop_made)
      finally have "fst (snd (execute_loop ui self (f # rest) [] w)) =
          map (import_call self) (take (Suc n) (f # rest))"
        using n(2) by (simp split: prod.splits)
      moreover have "Suc n \<le> length (f # rest)" using n(1) by simp
      ultimately show ?thesis by blast
    qed
  qed
qed

lemma execute_loop_returns:
  "fst (execute_loop (Inr d) self fs made w) = None \<longleftrightarrow>
     calls_return d (map (import_call self) fs) w"
  by (induction fs arbitrary: made w)
     (simp_all add: Let_def split: prod.split option.split)

lemma execute_loop_complete:
  "calls_return d (map (import_call self) fs) w \<Longrightarrow>
     fst (snd (execute_loop (Inr d) self fs made w)) = made @ map (import_call self) fs"
  by (induction fs arbitrary: made w)
     (auto simp add: Let_def split: prod.splits option.splits)

lemma execute_result:
  "fst (execute ui self w) =
     (case fst (execute_loop ui self (files self) [] w) of
        None \<Rightarrow> Inr {''FINISHED''} | Some e \<Rightarrow> Inl e)"
  by (cases "execute_loop ui self (files self) [] w" rule: prod_cases3)
     (simp add: execute_def split: option.split)

lemma execute_invoked:
  "invoked (execute ui self w) = fst (snd (execute_loop ui self (files self) [] w))"
  by (cases "execute_loop ui self (files self) [] w" rule: prod_cases3)
     (simp add: execute_def invoked_def split: option.split)

section \<open>Registration: the claims\<close>

text \<open>
  Claim C10. \<^verbatim>\<open>register\<close> registers the class \<^verbatim>\<open>ASEAddonPreferences\<close> whatever the outcome
  of the dependency check, and before the check runs. From any state of the host, and
  whether \<^verbatim>\<open>register\<close> returns or raises, the class is registered afterwards; the first
  call \<^verbatim>\<open>register\<close> makes is \<^verbatim>\<open>register_class(ASEAddonPreferences)\<close>; and when the class
  was not registered before, the next call is the first one of the dependency check
  (\<^verbatim>\<open>import ase\<close>).
\<close>

theorem register_preferences_unconditional:
  "ASEAddonPreferences \<in> classes (snd (register h)) \<and>
   (\<exists>rest. new_events h (snd (register h)) = Register_class ASEAddonPreferences # rest) \<and>
   (ASEAddonPreferences \<notin> classes h \<longrightarrow>
      (\<exists>rest. new_events h (snd (register h)) =
         Register_class ASEAddonPreferences # Import_ase # rest))"
proof (cases "ASEAddonPreferences \<in> classes h")
  case True
  then show ?thesis
    by (simp add: register_already_registered new_events_def emit_def)
next
  case False
  define h1 where "h1 = (emit (Register_class ASEAddonPreferences) h)
    \<lparr>classes := insert ASEAddonPreferences (classes h)\<rparr>"
  have step: "register_class ASEAddonPreferences h = (Inr (), h1)"
    unfolding h1_def using False by (rule register_class_fresh)
  have h1: "trace h1 = trace h @ [Register_class ASEAddonPreferences]"
    "ASEAddonPreferences \<in> classes h1"
    by (simp_all add: h1_def emit_def)
  obtain r h2 where check: "check_dependency h1 = (r, h2)"
    by (cases "check_dependency h1")
  from check_dependency_trace [of h1] check obtain rest
    where h2: "trace h2 = trace h @ Register_class ASEAddonPreferences # Import_ase # rest"
    by (auto simp: h1)
  from check_dependency_frame(1) [of h1] check h1 have c2: "ASEAddonPreferences \<in> classes h2"
    by simp
  show ?thesis
  proof (cases r)
    case (Inl e)
    with step check h2 c2 False show ?thesis
      by (simp add: register_def new_events_def)
  next
    case (Inr dependency)
    with step check h2 c2 False show ?thesis
      by (cases dependency; cases "addon_prefs h2")
         (simp_all add: register_def new_events_def register_class_def menu_append_def emit_def
            Let_def)
  qed
qed

theorem register_preferences_unconditional_witness:
  "ASEAddonPreferences \<notin> classes example_host \<and>
   ASEAddonPreferences \<in> classes (snd (register example_host)) \<and>
   (\<exists>rest. new_events example_host (snd (register example_host)) =
      Register_class ASEAddonPreferences # Import_ase # rest)"
proof -
  have fresh: "ASEAddonPreferences \<notin> classes example_host"
    by (simp add: example_host_def)
  from register_preferences_unconditional [of example_host] fresh show ?thesis by simp
qed

text \<open>
  Claim C1. When the dependency check returns False, \<^verbatim>\<open>register\<close> makes no call that
  registers \<^verbatim>\<open>ImportASEMolecule\<close> and none that appends the menu entry: registry and menu
  are as before with regard to both. When the host calls \<^verbatim>\<open>register\<close> as it does for an
  add-on it loads (the preferences class is not registered yet, and the host has its
  entry for the add-on), \<^verbatim>\<open>register\<close> returns and has set \<^verbatim>\<open>install_failed\<close>, so that the
  panel's \<^verbatim>\<open>draw\<close> shows the failure label; with the flag unset \<^verbatim>\<open>draw\<close> shows the
  success label. The result of the check depends on the environment only (lemma
  \<open>check_dependency_result\<close>), so the hypothesis is stated at the start state.
\<close>

theorem register_dependency_failed:
  assumes "fst (check_dependency h) = Inr False"
  shows "Register_class ImportASEMolecule \<notin> set (new_events h (snd (register h))) \<and>
         Menu_append menu_func_import \<notin> set (new_events h (snd (register h))) \<and>
         (ImportASEMolecule \<in> classes (snd (register h)) \<longleftrightarrow> ImportASEMolecule \<in> classes h) \<and>
         file_import_menu (snd (register h)) = file_import_menu h \<and>
         (ASEAddonPreferences \<notin> classes h \<longrightarrow>
            (\<forall>p. addon_prefs h = Some p \<longrightarrow>
               fst (register h) = Inr () \<and>
               addon_prefs (snd (register h)) = Some (p\<lparr>install_failed := True\<rparr>) \<and>
               ASEAddonPreferences_draw (p\<lparr>install_failed := True\<rparr>) =
                 [\<lparr>label_text = ''ASE installation failed. Please check your internet connection.'',
                   label_icon = ''ERROR''\<rparr>])) \<and>
         (\<forall>q. \<not> install_failed q \<longrightarrow>
            ASEAddonPreferences_draw q =
              [\<lparr>label_text = ''ASE installation successful.'', label_icon = ''CHECKMARK''\<rparr>])"
proof (cases "ASEAddonPreferences \<in> classes h")
  case True
  then show ?thesis
    by (simp add: register_already_registered new_events_def emit_def ASEAddonPreferences_draw_def)
next
  case False
  with assms obtain h2 where reg: "register h =
       (case addon_prefs h of
          None \<Rightarrow> (Inl KeyError, h2)
        | Some p \<Rightarrow> (Inr (), h2\<lparr>addon_prefs := Some (p\<lparr>install_failed := True\<rparr>)\<rparr>))"
    and frame: "classes h2 = insert ASEAddonPreferences (classes h)"
      "file_import_menu h2 = file_import_menu h"
    and events: "set (new_events h h2) \<subseteq>
      {Register_class ASEAddonPreferences, Import_ase, Invalidate_caches}
        \<union> range Print \<union> range Spawn \<union> range Path_append"
    by (rule register_failed)
  have trace: "new_events h (snd (register h)) = new_events h h2"
    by (simp add: reg new_events_def split: option.split)
  have "Register_class ImportASEMolecule \<notin> set (new_events h h2)"
    "Menu_append menu_func_import \<notin> set (new_events h h2)"
    using events by auto
  then show ?thesis using frame
    by (simp add: trace, simp add: reg ASEAddonPreferences_draw_def split: option.split)
qed

theorem register_dependency_failed_witness:
  "fst (check_dependency example_host) = Inr False \<and>
   ASEAddonPreferences \<notin> classes example_host \<and>
   addon_prefs example_host = Some \<lparr>install_failed = False\<rparr> \<and>
   fst (register example_host) = Inr () \<and>
   ImportASEMolecule \<notin> classes (snd (register example_host)) \<and>
   file_import_menu (snd (register example_host)) = [Other_draw ''menu_func_import_obj''] \<and>
   addon_prefs (snd (register example_host)) = Some \<lparr>install_failed = True\<rparr> \<and>
   ASEAddonPreferences_draw \<lparr>install_failed = False\<rparr> =
     [\<lparr>label_text = ''ASE installation successful.'', label_icon = ''CHECKMARK''\<rparr>]"
proof -
  have failed: "fst (check_dependency example_host) = Inr False"
    by (simp add: check_dependency_result example_host_def)
  have fresh: "ASEAddonPreferences \<notin> classes example_host"
    and entry: "addon_prefs example_host = Some \<lparr>install_failed = False\<rparr>"
    and operator: "ImportASEMolecule \<notin> classes example_host"
    and menu: "file_import_menu example_host = [Other_draw ''menu_func_import_obj'']"
    by (simp_all add: example_host_def)
  from register_dependency_failed [OF failed] fresh entry operator menu failed
  show ?thesis by simp
qed

text \<open>
  Claim C3. When the dependency check returns True and the host calls \<^verbatim>\<open>register\<close> on an
  add-on whose two classes are not registered yet, \<^verbatim>\<open>register\<close> returns, the operator
  class is in the registry, exactly one of the calls made is
  \<^verbatim>\<open>register_class(ImportASEMolecule)\<close>, the menu has the entry \<^verbatim>\<open>menu_func_import\<close> added
  at its end, and exactly one of the calls made appends that entry.
\<close>

theorem register_dependency_ok:
  assumes "ASEAddonPreferences \<notin> classes h" and "ImportASEMolecule \<notin> classes h"
    and "fst (check_dependency h) = Inr True"
  shows "fst (register h) = Inr () \<and>
         classes (snd (register h)) =
           insert ImportASEMolecule (insert ASEAddonPreferences (classes h)) \<and>
         count_list (new_events h (snd (register h))) (Register_class ImportASEMolecule) = 1 \<and>
         file_import_menu (snd (register h)) = file_import_menu h @ [menu_func_import] \<and>
         count_list (new_events h (snd (register h))) (Menu_append menu_func_import) = 1"
proof -
  from assms(3,1,2) obtain h2 where reg: "register h =
       (Inr (), menu_append menu_func_import
                  ((emit (Register_class ImportASEMolecule) h2)
                     \<lparr>classes := insert ImportASEMolecule (classes h2)\<rparr>))"
    and frame: "classes h2 = insert ASEAddonPreferences (classes h)"
      "file_import_menu h2 = file_import_menu h"
    and events: "set (new_events h h2) \<subseteq>
      {Register_class ASEAddonPreferences, Import_ase, Invalidate_caches}
        \<union> range Print \<union> range Spawn \<union> range Path_append"
    and longer: "length (trace h) \<le> length (trace h2)"
    by (rule register_succeeded)
  have trace: "new_events h (snd (register h)) =
      new_events h h2 @ [Register_class ImportASEMolecule, Menu_append menu_func_import]"
    using longer by (simp add: reg new_events_def menu_append_def emit_def)
  have "Register_class ImportASEMolecule \<notin> set (new_events h h2)"
    "Menu_append menu_func_import \<notin> set (new_events h h2)"
    using events by auto
  then have "count_list (new_events h h2) (Register_class ImportASEMolecule) = 0"
    "count_list (new_events h h2) (Menu_append menu_func_import) = 0"
    by (simp_all add: count_list_absent)
  then show ?thesis
    by (simp add: trace, simp add: reg frame menu_append_def emit_def)
qed

theorem register_dependency_ok_witness:
  "ASEAddonPreferences \<notin> classes (example_host\<lparr>ase_importable := True\<rparr>) \<and>
   ImportASEMolecule \<notin> classes (example_host\<lparr>ase_importable := True\<rparr>) \<and>
   fst (check_dependency (example_host\<lparr>ase_importable := True\<rparr>)) = Inr True \<and>
   fst (register (example_host\<lparr>ase_importable := True\<rparr>)) = Inr () \<and>
   classes (snd (register (example_host\<lparr>ase_importable := True\<rparr>))) =
     {ImportASEMolecule, ASEAddonPreferences, Other_class ''VIEW3D_PT_tools''} \<and>
   file_import_menu (snd (register (example_host\<lparr>ase_importable := True\<rparr>))) =
     [Other_draw ''menu_func_import_obj'', menu_func_import]"
proof -
  let ?h = "example_host\<lparr>ase_importable := True\<rparr>"
  have fresh: "ASEAddonPreferences \<notin> classes ?h" "ImportASEMolecule \<notin> classes ?h"
    by (simp_all add: example_host_def)
  have ok: "fst (check_dependency ?h) = Inr True"
    by (simp add: check_dependency_result)
  have start: "classes ?h = {Other_class ''VIEW3D_PT_tools''}"
    "file_import_menu ?h = [Other_draw ''menu_func_import_obj'']"
    by (simp_all add: example_host_def)
  from register_dependency_ok [OF fresh ok] fresh ok start show ?thesis by simp
qed

text \<open>
  Claim C2, as stated, fails. The host of the example starts with an empty trace; the
  installer fails, so \<^verbatim>\<open>register\<close> never registers the operator. The first \<^verbatim>\<open>unregister\<close>
  returns; the second one raises \<^verbatim>\<open>RuntimeError\<close> at line 229, where
  \<^verbatim>\<open>unregister_class(ASEAddonPreferences)\<close> is outside the \<^verbatim>\<open>try\<close>, although the operator
  was never registered.
\<close>

theorem unregister_second_call_raises:
  "Register_class ImportASEMolecule \<notin> set (trace (snd (unregister (snd (register example_host))))) \<and>
   fst (register example_host) = Inr () \<and>
   fst (unregister (snd (register example_host))) = Inr () \<and>
   fst (unregister (snd (unregister (snd (register example_host))))) = Inl RuntimeError"
  by (simp add: example_host_def register_def unregister_def check_dependency_def install_ase_def
        host_ops Let_def join_def)

text \<open>
  Claim C2, amended. A call of \<^verbatim>\<open>unregister\<close> made when the operator class, the
  preferences class and the menu entry are all removed already leaves the host as it is
  (only the trace of calls grows). And \<^verbatim>\<open>unregister\<close> does not raise when the operator is
  not registered, provided the preferences class is registered, as it is after
  \<^verbatim>\<open>register\<close>: it then returns, having removed the preferences class and the first menu
  entry if there is one.
\<close>

theorem unregister_removed_or_never_registered:
  "(ImportASEMolecule \<notin> classes h \<and> ASEAddonPreferences \<notin> classes h \<and>
    menu_func_import \<notin> set (file_import_menu h) \<longrightarrow>
      snd (unregister h) = h\<lparr>trace := trace (snd (unregister h))\<rparr>) \<and>
   (ImportASEMolecule \<notin> classes g \<and> ASEAddonPreferences \<in> classes g \<longrightarrow>
      fst (unregister g) = Inr () \<and>
      classes (snd (unregister g)) = classes g - {ASEAddonPreferences} \<and>
      file_import_menu (snd (unregister g)) = remove1 menu_func_import (file_import_menu g))"
proof -
  have removed: "snd (unregister h) = h\<lparr>trace := trace (snd (unregister h))\<rparr>"
    if "ImportASEMolecule \<notin> classes h" "ASEAddonPreferences \<notin> classes h"
      "menu_func_import \<notin> set (file_import_menu h)"
    using that
    by (simp add: unregister_def unregister_class_def menu_remove_def print_def emit_def Let_def
          remove1_idem)
  have skipped: "unregister g =
      unregister_class ASEAddonPreferences
        (menu_remove menu_func_import
           (print ''ImportASEMolecule was not registered, skipping.''
              (emit (Unregister_class ImportASEMolecule) g)))"
    if "ImportASEMolecule \<notin> classes g"
    using that by (simp add: unregister_def unregister_class_def Let_def)
  have returns: "fst (unregister g) = Inr () \<and>
      classes (snd (unregister g)) = classes g - {ASEAddonPreferences} \<and>
      file_import_menu (snd (unregister g)) = remove1 menu_func_import (file_import_menu g)"
    if "ImportASEMolecule \<notin> classes g" "ASEAddonPreferences \<in> classes g"
    unfolding skipped [OF that(1)] using that(2)
    by (simp add: unregister_class_def menu_remove_def print_def emit_def Let_def)
  from removed returns show ?thesis by blast
qed

theorem unregister_removed_or_never_registered_witness:
  "ImportASEMolecule \<notin> classes example_host \<and>
   ASEAddonPreferences \<notin> classes example_host \<and>
   menu_func_import \<notin> set (file_import_menu example_host) \<and>
   classes (snd (unregister example_host)) = classes example_host \<and>
   file_import_menu (snd (unregister example_host)) = file_import_menu example_host \<and>
   ImportASEMolecule \<notin> classes (snd (register example_host)) \<and>
   ASEAddonPreferences \<in> classes (snd (register example_host)) \<and>
   fst (unregister (snd (register example_host))) = Inr () \<and>
   classes (snd (unregister (snd (register example_host)))) = {Other_class ''VIEW3D_PT_tools''}"
proof -
  let ?g = "snd (register example_host)"
  have gone: "ImportASEMolecule \<notin> classes example_host"
    "ASEAddonPreferences \<notin> classes example_host"
    "menu_func_import \<notin> set (file_import_menu example_host)"
    by (simp_all add: example_host_def)
  have g: "classes ?g = {ASEAddonPreferences, Other_class ''VIEW3D_PT_tools''}"
    by (simp add: example_host_def register_def check_dependency_def install_ase_def
        host_ops Let_def)
  have prefs: "ImportASEMolecule \<notin> classes ?g" "ASEAddonPreferences \<in> classes ?g"
    by (simp_all add: g)
  have unchanged: "snd (unregister example_host)
      = example_host\<lparr>trace := trace (snd (unregister example_host))\<rparr>"
    using unregister_removed_or_never_registered [of example_host ?g] gone by blast
  have "classes (snd (unregister example_host)) = classes example_host"
    "file_import_menu (snd (unregister example_host)) = file_import_menu example_host"
    by (subst unchanged, simp)+
  moreover have "fst (unregister ?g) = Inr ()"
    "classes (snd (unregister ?g)) = classes ?g - {ASEAddonPreferences}"
    using unregister_removed_or_never_registered [of example_host ?g] prefs by blast+
  ultimately show ?thesis using gone prefs g by simp
qed

section \<open>The dependency check: the claims\<close>

text \<open>
  Claim C4. \<^verbatim>\<open>check_dependency\<close> handles exactly two kinds of failure. When the installer
  exits with a non-zero code, the body of the \<^verbatim>\<open>try\<close> raises \<^verbatim>\<open>CalledProcessError\<close>; when
  the installer exits with 0 and the package still cannot be imported, it raises
  \<^verbatim>\<open>ImportError\<close>. In both cases \<^verbatim>\<open>check_dependency\<close> returns False and the last thing it
  does is print the message of the handler. It returns False in no other case, neither
  of the two exceptions ever leaves it, and another failure (here: the installer cannot
  be started) is not caught.
\<close>

theorem check_dependency_failure_kinds:
  "(\<not> ase_importable h \<and> script_path_user h = Some sp \<and> installer h = Exit rc \<and> rc \<noteq> 0 \<longrightarrow>
      fst (install_ase (print ''ASE not present in Blender python. Attempting install. This could take a moment...''
             (snd (import_ase h)))) = Inl (CalledProcessError rc) \<and>
      fst (check_dependency h) = Inr False \<and>
      last (trace (snd (check_dependency h))) =
        Print ''Failed to install ASE. Please check your internet connection and try again or install manually'') \<and>
   (\<not> ase_importable g \<and> script_path_user g = Some sq \<and> installer g = Exit 0 \<and>
    \<not> ase_after_install g \<longrightarrow>
      fst (install_ase (print ''ASE not present in Blender python. Attempting install. This could take a moment...''
             (snd (import_ase g)))) = Inl ImportError \<and>
      fst (check_dependency g) = Inr False \<and>
      last (trace (snd (check_dependency g))) =
        Print ''ASE not found after installation, check your blender installation'') \<and>
   (fst (check_dependency k) = Inr False \<longrightarrow>
      \<not> ase_importable k \<and>
      (\<exists>rc'. installer k = Exit rc' \<and> (rc' \<noteq> 0 \<or> \<not> ase_after_install k))) \<and>
   fst (check_dependency k) \<noteq> Inl ImportError \<and>
   fst (check_dependency k) \<noteq> Inl (CalledProcessError rc'') \<and>
   (\<not> ase_importable k \<and> script_path_user k \<noteq> None \<and> installer k = Cannot_execute \<longrightarrow>
      fst (check_dependency k) = Inl OSError)"
proof -
  have nonzero: "fst (check_dependency h) = Inr False \<and>
      last (trace (snd (check_dependency h))) =
        Print ''Failed to install ASE. Please check your internet connection and try again or install manually''"
    if "\<not> ase_importable h" "script_path_user h = Some sp" "installer h = Exit rc" "rc \<noteq> 0"
    using check_dependency_exit_nonzero [OF that] by (simp add: print_def emit_def)
  have nonzero_raised: "fst (install_ase (print ''ASE not present in Blender python. Attempting install. This could take a moment...''
             (snd (import_ase h)))) = Inl (CalledProcessError rc)"
    if "\<not> ase_importable h" "script_path_user h = Some sp" "installer h = Exit rc" "rc \<noteq> 0"
    using that by (simp add: install_ase_def check_call_def import_ase_def print_def emit_def Let_def)
  have import_failure: "fst (check_dependency g) = Inr False \<and>
      last (trace (snd (check_dependency g))) =
        Print ''ASE not found after installation, check your blender installation''"
    if "\<not> ase_importable g" "script_path_user g = Some sq" "installer g = Exit 0"
      "\<not> ase_after_install g"
    using check_dependency_exit_zero [OF that(1,2,3)] that(4) by (simp add: print_def emit_def)
  have import_raised: "fst (install_ase (print ''ASE not present in Blender python. Attempting install. This could take a moment...''
             (snd (import_ase g)))) = Inl ImportError"
    if "\<not> ase_importable g" "script_path_user g = Some sq" "installer g = Exit 0"
      "\<not> ase_after_install g"
    using that
    by (simp add: install_ase_def check_call_def import_ase_def print_def emit_def path_append_def
          invalidate_caches_def Let_def)
  have only: "\<not> ase_importable k \<and>
      (\<exists>rc'. installer k = Exit rc' \<and> (rc' \<noteq> 0 \<or> \<not> ase_after_install k))"
    if "fst (check_dependency k) = Inr False"
    using that by (rule check_dependency_False) blast
  have caught: "fst (check_dependency k) \<noteq> Inl ImportError"
    "fst (check_dependency k) \<noteq> Inl (CalledProcessError rc'')"
    by (simp_all add: check_dependency_result split: option.split proc_result.split)
  have other: "fst (check_dependency k) = Inl OSError"
    if "\<not> ase_importable k" "script_path_user k \<noteq> None" "installer k = Cannot_execute"
    using that by (auto simp add: check_dependency_result)
  from nonzero nonzero_raised import_failure import_raised only caught other
  show ?thesis by blast
qed

theorem check_dependency_failure_kinds_witness:
  "fst (check_dependency example_host) = Inr False \<and>
   last (trace (snd (check_dependency example_host))) =
     Print ''Failed to install ASE. Please check your internet connection and try again or install manually'' \<and>
   fst (check_dependency (example_host\<lparr>installer := Exit 0\<rparr>)) = Inr False \<and>
   last (trace (snd (check_dependency (example_host\<lparr>installer := Exit 0\<rparr>)))) =
     Print ''ASE not found after installation, check your blender installation'' \<and>
   fst (check_dependency (example_host\<lparr>installer := Cannot_execute\<rparr>)) = Inl OSError"
proof -
  let ?g = "example_host\<lparr>installer := Exit 0\<rparr>"
  let ?k = "example_host\<lparr>installer := Cannot_execute\<rparr>"
  have h: "\<not> ase_importable example_host \<and>
      script_path_user example_host = Some ''/home/user/scripts'' \<and>
      installer example_host = Exit 1 \<and> (1::int) \<noteq> 0"
    by (simp add: example_host_def)
  have g: "\<not> ase_importable ?g \<and> script_path_user ?g = Some ''/home/user/scripts'' \<and>
      installer ?g = Exit 0 \<and> \<not> ase_after_install ?g"
    by (simp add: example_host_def)
  have k: "\<not> ase_importable ?k \<and> script_path_user ?k \<noteq> None \<and> installer ?k = Cannot_execute"
    by (simp add: example_host_def)
  from check_dependency_failure_kinds
    [of example_host "''/home/user/scripts''" 1 ?g "''/home/user/scripts''" ?k 0] h g k
  show ?thesis by blast
qed

text \<open>
  Claim C7. After the installer subprocess has succeeded, \<^verbatim>\<open>sys.path\<close> ends with the
  install directory \<^verbatim>\<open>join(script_path, "modules")\<close> if it did not contain it, and is
  unchanged if it did: the directory is on the path afterwards, and the number of its
  occurrences is one, or what it was before. In every run in which the installer does
  not succeed (the package is there already, or the installer fails), \<^verbatim>\<open>sys.path\<close> is
  left as it is.
\<close>

theorem check_dependency_sys_path:
  "(\<not> ase_importable h \<and> script_path_user h = Some sp \<and> installer h = Exit 0 \<longrightarrow>
      sys_path (snd (check_dependency h)) =
        (if join sp ''modules'' \<in> set (sys_path h) then sys_path h
         else sys_path h @ [join sp ''modules'']) \<and>
      join sp ''modules'' \<in> set (sys_path (snd (check_dependency h))) \<and>
      count_list (sys_path (snd (check_dependency h))) (join sp ''modules'') =
        max 1 (count_list (sys_path h) (join sp ''modules''))) \<and>
   (ase_importable g \<or> installer g \<noteq> Exit 0 \<longrightarrow>
      sys_path (snd (check_dependency g)) = sys_path g)"
proof -
  have installed: "sys_path (snd (check_dependency h)) =
        (if join sp ''modules'' \<in> set (sys_path h) then sys_path h
         else sys_path h @ [join sp ''modules''])"
    if "\<not> ase_importable h" "script_path_user h = Some sp" "installer h = Exit 0"
    using check_dependency_exit_zero [OF that]
    by (simp add: print_def emit_def path_append_def invalidate_caches_def)
  have counted: "count_list (if p \<in> set xs then xs else xs @ [p]) p = max 1 (count_list xs p)"
    for p :: string and xs
    using count_list_present [of p xs] by (simp add: count_list_absent)
  have untouched: "sys_path (snd (check_dependency g)) = sys_path g"
    if "ase_importable g \<or> installer g \<noteq> Exit 0"
    using that
    by (cases g rule: check_dependency_cases)
       (simp_all add: check_dependency_closed print_def emit_def)
  from installed counted untouched show ?thesis by simp
qed

theorem check_dependency_sys_path_witness:
  "sys_path (snd (check_dependency (example_host\<lparr>installer := Exit 0\<rparr>))) =
     [''/usr/lib/python3.11'', ''/home/user/scripts/modules''] \<and>
   sys_path (snd (check_dependency
      (example_host\<lparr>installer := Exit 0, sys_path := [''/home/user/scripts/modules'']\<rparr>))) =
     [''/home/user/scripts/modules''] \<and>
   sys_path (snd (check_dependency example_host)) = [''/usr/lib/python3.11'']"
proof -
  let ?h = "example_host\<lparr>installer := Exit 0\<rparr>"
  let ?h' = "example_host\<lparr>installer := Exit 0, sys_path := [''/home/user/scripts/modules'']\<rparr>"
  have path: "join ''/home/user/scripts'' ''modules'' = ''/home/user/scripts/modules''"
    by (simp add: join_def)
  have h: "\<not> ase_importable ?h \<and> script_path_user ?h = Some ''/home/user/scripts'' \<and>
      installer ?h = Exit 0" "sys_path ?h = [''/usr/lib/python3.11'']"
    by (simp_all add: example_host_def)
  have h': "\<not> ase_importable ?h' \<and> script_path_user ?h' = Some ''/home/user/scripts'' \<and>
      installer ?h' = Exit 0" "sys_path ?h' = [''/home/user/scripts/modules'']"
    by (simp_all add: example_host_def)
  have g: "ase_importable example_host \<or> installer example_host \<noteq> Exit 0"
    "sys_path example_host = [''/usr/lib/python3.11'']"
    by (simp_all add: example_host_def)
  from check_dependency_sys_path [of ?h "''/home/user/scripts''" example_host] h g
  have "sys_path (snd (check_dependency ?h)) =
     [''/usr/lib/python3.11'', ''/home/user/scripts/modules'']"
    "sys_path (snd (check_dependency example_host)) = [''/usr/lib/python3.11'']"
    by (simp_all add: path)
  moreover from check_dependency_sys_path [of ?h' "''/home/user/scripts''" example_host] h'
  have "sys_path (snd (check_dependency ?h')) = [''/home/user/scripts/modules'']"
    by (simp add: path)
  ultimately show ?thesis by simp
qed

text \<open>
  Claim C8. One call of \<^verbatim>\<open>check_dependency\<close> starts the installer at most once, whatever
  happens. When the installation fails (the installer exits with a non-zero code, or
  the package cannot be imported after it), the installer has been started exactly once,
  \<^verbatim>\<open>check_dependency\<close> returns False, the package is still not importable, and
  \<^verbatim>\<open>register\<close> leaves the operator unregistered: the feature is off.
\<close>

theorem check_dependency_no_retry:
  "length (filter is_spawn (new_events h (snd (check_dependency h)))) \<le> 1 \<and>
   (\<not> ase_importable g \<and> script_path_user g = Some sp \<and> installer g = Exit rc \<and>
    (rc \<noteq> 0 \<or> \<not> ase_after_install g) \<longrightarrow>
      fst (check_dependency g) = Inr False \<and>
      filter is_spawn (new_events g (snd (check_dependency g))) =
        [Spawn [executable g, ''-m'', ''pip'', ''install'', ''--target'',
                join sp ''modules'', ''ase'']] \<and>
      \<not> ase_importable (snd (check_dependency g)) \<and>
      (ImportASEMolecule \<notin> classes g \<longrightarrow> ImportASEMolecule \<notin> classes (snd (register g))))"
proof -
  have once: "length (filter is_spawn (new_events h (snd (check_dependency h)))) \<le> 1"
    by (simp add: check_dependency_spawns split: option.split)
  have failure: "fst (check_dependency g) = Inr False \<and>
      filter is_spawn (new_events g (snd (check_dependency g))) =
        [Spawn [executable g, ''-m'', ''pip'', ''install'', ''--target'',
                join sp ''modules'', ''ase'']] \<and>
      \<not> ase_importable (snd (check_dependency g)) \<and>
      (ImportASEMolecule \<notin> classes g \<longrightarrow> ImportASEMolecule \<notin> classes (snd (register g)))"
    if env: "\<not> ase_importable g" "script_path_user g = Some sp" "installer g = Exit rc"
      "rc \<noteq> 0 \<or> \<not> ase_after_install g"
  proof -
    from env have result: "fst (check_dependency g) = Inr False"
      by (auto simp add: check_dependency_result)
    from env have "filter is_spawn (new_events g (snd (check_dependency g))) =
        [Spawn [executable g, ''-m'', ''pip'', ''install'', ''--target'',
                join sp ''modules'', ''ase'']]"
      by (simp add: check_dependency_spawns)
    with result check_dependency_still_missing [OF result] register_failed_operator [OF result]
    show ?thesis by simp
  qed
  from once failure show ?thesis by blast
qed

theorem check_dependency_no_retry_witness:
  "length (filter is_spawn
      (new_events example_host (snd (check_dependency example_host)))) \<le> 1 \<and>
   fst (check_dependency example_host) = Inr False \<and>
   filter is_spawn (new_events example_host (snd (check_dependency example_host))) =
     [Spawn [''/usr/bin/python3.11'', ''-m'', ''pip'', ''install'', ''--target'',
             ''/home/user/scripts/modules'', ''ase'']] \<and>
   \<not> ase_importable (snd (check_dependency example_host)) \<and>
   ImportASEMolecule \<notin> classes (snd (register example_host))"
proof -
  have env: "\<not> ase_importable example_host \<and>
      script_path_user example_host = Some ''/home/user/scripts'' \<and>
      installer example_host = Exit 1 \<and> ((1::int) \<noteq> 0 \<or> \<not> ase_after_install example_host)"
    and operator: "ImportASEMolecule \<notin> classes example_host"
    and python: "executable example_host = ''/usr/bin/python3.11''"
    by (simp_all add: example_host_def)
  have path: "join ''/home/user/scripts'' ''modules'' = ''/home/user/scripts/modules''"
    by (simp add: join_def)
  from check_dependency_no_retry [of example_host example_host "''/home/user/scripts''" 1]
    env operator
  show ?thesis by (simp add: python path)
qed

section \<open>The import operator: the claims\<close>




text \<open>
  Claim C6. What the external function is handed: in every call it receives, the
  keyword arguments are the values of the operator's properties, unchanged and under the
  names of the source (scale, resolution, color, imageslice, the representation chosen,
  and the nine boolean toggles, \<^verbatim>\<open>zero_cell\<close> under the keyword \<^verbatim>\<open>shift_cell\<close>), and no
  others. The function does receive calls: with a file selected, the first call it
  receives is the one for the first file, and when every call returns it receives the
  calls for all files. Recording the calls does not change the run.
\<close>

theorem execute_passes_properties_verbatim:
  "execute (Inr (recorded d)) self ([], w) =
     (case execute (Inr d) self w of (r, made, w') \<Rightarrow> (r, made, made, w')) \<and>
   (\<forall>c \<in> set (received (execute (Inr (recorded d)) self ([], w))).
      kwargs c =
        [(''resolution'', Py_int (resolution self)),
         (''color'', Py_float (color self)),
         (''colorbonds'', Py_bool (colorbonds self)),
         (''fix_bonds'', Py_bool (fix_bonds self)),
         (''scale'', Py_float (scale self)),
         (''unit_cell'', Py_bool (unit_cell self)),
         (''representation'', Py_enum (representation self)),
         (''read_density'', Py_bool (read_density self)),
         (''shift_cell'', Py_bool (zero_cell self)),
         (''imageslice'', Py_int (imageslice self)),
         (''animate'', Py_bool (animate self)),
         (''outline'', Py_bool (outline self)),
         (''overwrite'', Py_bool (overwrite self)),
         (''add_supercell'', Py_bool (add_supercell self))]) \<and>
   (files self = f # rest \<longrightarrow>
      received (execute (Inr (recorded d)) self ([], w)) \<noteq> [] \<and>
      hd (received (execute (Inr (recorded d)) self ([], w))) = import_call self f) \<and>
   (calls_return d (map (import_call self) (files self)) w \<longrightarrow>
      received (execute (Inr (recorded d)) self ([], w)) =
        map (import_call self) (files self))"
proof -
  let ?got = "received (execute (Inr (recorded d)) self ([], w))"
  have got: "?got = fst (snd (execute_loop (Inr d) self (files self) [] w))"
  proof (cases "execute (Inr d) self w" rule: prod_cases3)
    case (fields r made w')
    with execute_invoked [of "Inr d" self w] show ?thesis
      by (simp add: execute_recorded received_def invoked_def)
  qed
  have made: "?got = invoked (execute (Inr d) self w)"
    by (simp add: got execute_invoked)
  have verbatim: "kwargs c =
        [(''resolution'', Py_int (resolution self)),
         (''color'', Py_float (color self)),
         (''colorbonds'', Py_bool (colorbonds self)),
         (''fix_bonds'', Py_bool (fix_bonds self)),
         (''scale'', Py_float (scale self)),
         (''unit_cell'', Py_bool (unit_cell self)),
         (''representation'', Py_enum (representation self)),
         (''read_density'', Py_bool (read_density self)),
         (''shift_cell'', Py_bool (zero_cell self)),
         (''imageslice'', Py_int (imageslice self)),
         (''animate'', Py_bool (animate self)),
         (''outline'', Py_bool (outline self)),
         (''overwrite'', Py_bool (overwrite self)),
         (''add_supercell'', Py_bool (add_supercell self))]"
    if "c \<in> set ?got" for c
  proof -
    from execute_loop_prefix [of "files self" "Inr d" self w] that
    obtain x where "c = import_call self x"
      unfolding got by (auto dest: in_set_takeD)
    then show ?thesis by (simp add: import_call_def Let_def)
  qed
  have first: "?got \<noteq> [] \<and> hd ?got = import_call self f" if sel: "files self = f # rest"
  proof -
    obtain r w' where call: "d (import_call self f) w = (r, w')"
      by (cases "d (import_call self f) w")
    show ?thesis
    proof (cases r)
      case (Some e)
      with execute_call_raises [OF sel, of d w e w'] call show ?thesis
        by (simp add: made invoked_def)
    next
      case None
      with execute_call_returns [OF sel, of d w w'] call show ?thesis
        by (simp add: made invoked_def split: prod.split)
    qed
  qed
  have complete: "?got = map (import_call self) (files self)"
    if "calls_return d (map (import_call self) (files self)) w"
    unfolding got using execute_loop_complete [OF that, of "[]"] by simp
  from execute_recorded [of d self w] verbatim first complete show ?thesis by blast
qed

theorem execute_passes_properties_verbatim_witness:
  "received (execute (Inr (recorded counting_import)) example_operator ([], 0)) =
     [import_call example_operator \<lparr>name = ''h2o.xyz''\<rparr>,
      import_call example_operator \<lparr>name = ''co2.cube''\<rparr>] \<and>
   kwargs (import_call example_operator \<lparr>name = ''co2.cube''\<rparr>) =
     [(''resolution'', Py_int 16), (''color'', Py_float 0.6), (''colorbonds'', Py_bool False),
      (''fix_bonds'', Py_bool True), (''scale'', Py_float 0.5), (''unit_cell'', Py_bool False),
      (''representation'', Py_enum nodes), (''read_density'', Py_bool True),
      (''shift_cell'', Py_bool False), (''imageslice'', Py_int 1), (''animate'', Py_bool True),
      (''outline'', Py_bool True), (''overwrite'', Py_bool True),
      (''add_supercell'', Py_bool True)] \<and>
   hd (received (execute (Inr (recorded failing_import)) example_operator ([], 0))) =
     import_call example_operator \<lparr>name = ''h2o.xyz''\<rparr>"
proof -
  let ?a = "\<lparr>name = ''h2o.xyz''\<rparr>" and ?b = "\<lparr>name = ''co2.cube''\<rparr>"
  have sel: "files example_operator = [?a, ?b]"
    by (simp add: example_operator_def)
  have all: "calls_return counting_import
      (map (import_call example_operator) (files example_operator)) 0"
    by (simp add: sel counting_import_def)
  note counting = execute_passes_properties_verbatim
    [where d = counting_import and self = example_operator and w = "0::nat" and f = ?a
       and rest = "[?b]"]
  note failing = execute_passes_properties_verbatim
    [where d = failing_import and self = example_operator and w = "0::nat" and f = ?a
       and rest = "[?b]"]
  from counting all
  have "received (execute (Inr (recorded counting_import)) example_operator ([], 0)) =
      map (import_call example_operator) (files example_operator)"
    by blast
  then have got: "received (execute (Inr (recorded counting_import)) example_operator ([], 0)) =
     [import_call example_operator ?a, import_call example_operator ?b]"
    by (simp add: sel)
  then have "import_call example_operator ?b
      \<in> set (received (execute (Inr (recorded counting_import)) example_operator ([], 0)))"
    by simp
  with counting have "kwargs (import_call example_operator ?b) =
        [(''resolution'', Py_int (resolution example_operator)),
         (''color'', Py_float (color example_operator)),
         (''colorbonds'', Py_bool (colorbonds example_operator)),
         (''fix_bonds'', Py_bool (fix_bonds example_operator)),
         (''scale'', Py_float (scale example_operator)),
         (''unit_cell'', Py_bool (unit_cell example_operator)),
         (''representation'', Py_enum (representation example_operator)),
         (''read_density'', Py_bool (read_density example_operator)),
         (''shift_cell'', Py_bool (zero_cell example_operator)),
         (''imageslice'', Py_int (imageslice example_operator)),
         (''animate'', Py_bool (animate example_operator)),
         (''outline'', Py_bool (outline example_operator)),
         (''overwrite'', Py_bool (overwrite example_operator)),
         (''add_supercell'', Py_bool (add_supercell example_operator))]"
    by blast
  then have given: "kwargs (import_call example_operator ?b) =
     [(''resolution'', Py_int 16), (''color'', Py_float 0.6), (''colorbonds'', Py_bool False),
      (''fix_bonds'', Py_bool True), (''scale'', Py_float 0.5), (''unit_cell'', Py_bool False),
      (''representation'', Py_enum nodes), (''read_density'', Py_bool True),
      (''shift_cell'', Py_bool False), (''imageslice'', Py_int 1), (''animate'', Py_bool True),
      (''outline'', Py_bool True), (''overwrite'', Py_bool True),
      (''add_supercell'', Py_bool True)]"
    by (simp add: example_operator_def)
  from failing sel
  have first: "hd (received (execute (Inr (recorded failing_import)) example_operator ([], 0))) =
     import_call example_operator ?a"
    by blast
  from got given first show ?thesis by blast
qed

text \<open>
  Claim C9. With no file selected \<^verbatim>\<open>execute\<close> makes no call of the external function,
  leaves the scene as it is and returns \<^verbatim>\<open>{"FINISHED"}\<close>, whatever the import statement
  and the external function would do. In general \<^verbatim>\<open>execute\<close> returns \<^verbatim>\<open>{"FINISHED"}\<close> exactly
  when the downstream calls of the run return: the calls for the selected files, each
  made in the scene that the one before has left. When the import statement itself
  raises, \<^verbatim>\<open>execute\<close> returns only with no file selected.
\<close>

theorem execute_finished:
  "(files self = [] \<longrightarrow> execute ui self w = (Inr {''FINISHED''}, [], w)) \<and>
   (fst (execute (Inr d) self w) = Inr {''FINISHED''} \<longleftrightarrow>
      calls_return d (map (import_call self) (files self)) w) \<and>
   (fst (execute (Inl err) self w) = Inr {''FINISHED''} \<longleftrightarrow> files self = [])"
proof -
  have returns: "fst (execute (Inr d) self w) = Inr {''FINISHED''} \<longleftrightarrow>
      calls_return d (map (import_call self) (files self)) w"
    using execute_loop_returns [of d self "files self" "[]" w]
    by (cases "fst (execute_loop (Inr d) self (files self) [] w)")
       (simp_all add: execute_result)
  have import: "fst (execute (Inl err) self w) = Inr {''FINISHED''} \<longleftrightarrow> files self = []"
    by (cases "files self") (simp_all add: execute_def)
  from execute_no_file [of self ui w] returns import show ?thesis by blast
qed

theorem execute_finished_witness:
  "execute (Inr failing_import) (example_operator\<lparr>files := []\<rparr>) 0 =
     (Inr {''FINISHED''}, [], 0) \<and>
   fst (execute (Inr counting_import) example_operator 0) = Inr {''FINISHED''} \<and>
   fst (execute (Inr failing_second_import) example_operator 0) \<noteq> Inr {''FINISHED''} \<and>
   fst (execute (Inl ImportError) example_operator (0::nat)) \<noteq> Inr {''FINISHED''}"
proof -
  let ?none = "example_operator\<lparr>files := []\<rparr>"
  have sel: "files example_operator = [\<lparr>name = ''h2o.xyz''\<rparr>, \<lparr>name = ''co2.cube''\<rparr>]"
    "files ?none = []"
    by (simp_all add: example_operator_def)
  have all: "calls_return counting_import
      (map (import_call example_operator) (files example_operator)) 0"
    by (simp add: sel counting_import_def)
  have some: "\<not> calls_return failing_second_import
      (map (import_call example_operator) (files example_operator)) 0"
    by (simp add: sel failing_second_import_def)
  from execute_finished
    [where self = ?none and ui = "Inr failing_import" and w = "0::nat" and d = failing_import
       and err = ImportError] sel(2)
  have none: "execute (Inr failing_import) ?none 0 = (Inr {''FINISHED''}, [], 0)"
    by blast
  from execute_finished
    [where self = example_operator and ui = "Inr counting_import" and w = "0::nat"
       and d = counting_import and err = ImportError] all sel(1)
  have returns: "fst (execute (Inr counting_import) example_operator 0) = Inr {''FINISHED''}"
    "fst (execute (Inl ImportError) example_operator (0::nat)) \<noteq> Inr {''FINISHED''}"
    by simp_all
  from execute_finished
    [where self = example_operator and ui = "Inr counting_import" and w = "0::nat"
       and d = failing_second_import and err = ImportError] some
  have raises: "fst (execute (Inr failing_second_import) example_operator 0) \<noteq> Inr {''FINISHED''}"
    by blast
  from none returns raises show ?thesis by blast
qed

end
